theory Spec2Isabelle
  imports Complex_Main
begin

section \<open>Data model\<close>

text \<open>
  The database tables of the betting backend (Prisma schema: \<open>game_rounds\<close>, \<open>bets\<close>,
  \<open>wallets\<close>, \<open>transactions\<close>) and the services that work on them
  (\<open>profitEngine.service.js\<close>, \<open>gameAdmin.service.js\<close>, \<open>bet.service.js\<close>).

  Modelling decisions:
  \<^item> Money amounts are exact rationals. The source computes with JavaScript doubles and
    stores \<open>DECIMAL(15,2)\<close>; neither rounding is modelled.
  \<^item> Identifiers and selections are byte strings; \<open>toUpperCase\<close> maps \<open>a\<close>..\<open>z\<close> only.
  \<^item> A table is the list of its rows, in the order \<open>findMany\<close> returns them; \<open>wallets\<close>
    has a unique index on \<open>userId\<close> and is a map from user id to balance.
  \<^item> Every exception of the source is a value of type \<open>error\<close>. An operation returns the
    database it leaves behind together with its result, so that what a failed call has
    already written stays visible. A \<open>prisma.$transaction\<close> block that fails leaves the
    database as it was before the block.
  \<^item> \<open>new Date()\<close> is a parameter \<open>now\<close>, \<open>Math.random()\<close> a parameter in \<open>[0, 1)\<close>, and the
    id the database generates for a new bet a parameter. Row ids and timestamps of
    transactions, \<open>createdAt\<close>/\<open>updatedAt\<close>, and log output are left out.
\<close>

type_synonym id = string

datatype RoundStatus = OPEN | PAUSED | CLOSED | CANCELLED | RESULT_DECLARED

datatype ResultStatus = RESULT_PENDING | DECLARED

datatype BetType = COLOR | NUMBER | SIZE

datatype BetResult = PENDING | WON | LOST | BET_CANCELLED

datatype TransactionType = DEPOSIT | WITHDRAWAL | BET_PLACED | BET_WON | REFERRAL_BONUS | REFUND

datatype TransactionStatus = TX_PENDING | COMPLETED | FAILED | TX_CANCELLED

datatype ResultDeclaredBy = ADMIN | SYSTEM

record Bet =
  bet_id :: id
  userId :: id
  gameRoundId :: id
  betType :: BetType
  selection :: string
  amount :: rat
  potentialWin :: rat
  result :: BetResult
  winAmount :: "rat option"

record Transaction =
  tx_userId :: id
  tx_type :: TransactionType
  tx_amount :: rat
  tx_status :: TransactionStatus
  referenceId :: "id option"
  description :: string

text \<open>One outcome candidate of the profit engine (an element of \<open>results\<close>).\<close>

record Candidate =
  number :: int
  color :: "string option"
  size_of :: "string option"
  colorPayout :: rat
  sizePayout :: rat
  numberPayout :: rat
  totalLiability :: rat
  totalCollection :: rat
  profit :: rat
  profitPercent :: rat
  isProfitable :: bool
  isAcceptable :: bool

record GameRound =
  round_id :: id
  period :: string
  status :: RoundStatus
  resultStatus :: ResultStatus
  r_number :: "int option"
  winningColor :: "string option"
  winningSize :: "string option"
  resultDeclaredBy :: "ResultDeclaredBy option"
  declaredAt :: "nat option"
  declaredByAdminId :: "id option"
  endTime :: "nat option"
  r_totalCollection :: "rat option"
  r_totalPayout :: "rat option"
  r_profit :: "rat option"
  r_profitPercent :: "rat option"
  calculationData :: "Candidate list option"
  selectedResultRank :: "string option"
  r_isProfitable :: bool
  lossAmount :: "rat option"

record db =
  gameRounds :: "GameRound list"
  bets :: "Bet list"
  wallets :: "id \<rightharpoonup> rat"
  transactions :: "Transaction list"

datatype error =
    GameRoundNotFound
  | ResultAlreadyDeclared
  | CannotDeclareCancelled
  | InvalidWinningOptionValidation
  | ExceedsMaxLoss Candidate
  | InvalidWinningOption
  | RoundAlreadyCancelled
  | CannotCancelDeclared
  | BettingPaused
  | BettingClosed
  | RoundCancelled
  | InsufficientBalance
  | AlreadyPlacedBet
  | RecordNotFound
  | TypeError
  | NotANumber
  | UniqueConstraintFailed

section \<open>Constants (config/constants.js)\<close>

definition PAYOUTS_COLOR_GREEN :: rat where "PAYOUTS_COLOR_GREEN = 39 / 20"
definition PAYOUTS_COLOR_RED :: rat where "PAYOUTS_COLOR_RED = 39 / 20"
definition PAYOUTS_COLOR_VIOLET :: rat where "PAYOUTS_COLOR_VIOLET = 9 / 2"
definition PAYOUTS_NUMBER :: rat where "PAYOUTS_NUMBER = 17 / 2"
definition PAYOUTS_SIZE_BIG :: rat where "PAYOUTS_SIZE_BIG = 39 / 20"
definition PAYOUTS_SIZE_SMALL :: rat where "PAYOUTS_SIZE_SMALL = 39 / 20"

text \<open>\<open>PAYOUTS.COLOR[key]\<close> and \<open>PAYOUTS.SIZE[key]\<close>: \<open>None\<close> is JavaScript's \<open>undefined\<close>.\<close>

definition PAYOUTS_COLOR :: "string \<rightharpoonup> rat" where
  "PAYOUTS_COLOR = map_of
     [(''GREEN'', PAYOUTS_COLOR_GREEN), (''RED'', PAYOUTS_COLOR_RED),
      (''VIOLET'', PAYOUTS_COLOR_VIOLET)]"

definition PAYOUTS_SIZE :: "string \<rightharpoonup> rat" where
  "PAYOUTS_SIZE = map_of [(''BIG'', PAYOUTS_SIZE_BIG), (''SMALL'', PAYOUTS_SIZE_SMALL)]"

definition NUMBER_COLORS_entries :: "(int \<times> string) list" where
  "NUMBER_COLORS_entries =
     [(0, ''VIOLET''), (1, ''GREEN''), (2, ''RED''), (3, ''GREEN''), (4, ''RED''),
      (5, ''VIOLET''), (6, ''RED''), (7, ''GREEN''), (8, ''RED''), (9, ''GREEN'')]"

definition NUMBER_SIZES_entries :: "(int \<times> string) list" where
  "NUMBER_SIZES_entries =
     [(0, ''SMALL''), (1, ''SMALL''), (2, ''SMALL''), (3, ''SMALL''), (4, ''SMALL''),
      (5, ''BIG''), (6, ''BIG''), (7, ''BIG''), (8, ''BIG''), (9, ''BIG'')]"

definition NUMBER_COLORS :: "int \<rightharpoonup> string" where
  "NUMBER_COLORS = map_of NUMBER_COLORS_entries"

definition NUMBER_SIZES :: "int \<rightharpoonup> string" where
  "NUMBER_SIZES = map_of NUMBER_SIZES_entries"

section \<open>JavaScript built-ins used by the services\<close>

definition isWhiteSpace :: "char \<Rightarrow> bool" where
  "isWhiteSpace c = (c \<in> set [CHR 0x09, CHR 0x0A, CHR 0x0B, CHR 0x0C, CHR 0x0D, CHR 0x20])"

definition digitValue :: "char \<rightharpoonup> nat" where
  "digitValue = map_of
     [(CHR ''0'', 0), (CHR ''1'', 1), (CHR ''2'', 2), (CHR ''3'', 3), (CHR ''4'', 4),
      (CHR ''5'', 5), (CHR ''6'', 6), (CHR ''7'', 7), (CHR ''8'', 8), (CHR ''9'', 9),
      (CHR ''a'', 10), (CHR ''b'', 11), (CHR ''c'', 12), (CHR ''d'', 13), (CHR ''e'', 14),
      (CHR ''f'', 15), (CHR ''A'', 10), (CHR ''B'', 11), (CHR ''C'', 12), (CHR ''D'', 13),
      (CHR ''E'', 14), (CHR ''F'', 15)]"

definition isDigitOf :: "nat \<Rightarrow> char \<Rightarrow> bool" where
  "isDigitOf radix c = (case digitValue c of None \<Rightarrow> False | Some v \<Rightarrow> v < radix)"

text \<open>
  \<open>parseInt(string)\<close> with no radix argument: leading white space is skipped, a sign is
  read, a \<open>0x\<close> prefix selects radix 16, and the longest prefix of digits is the value;
  \<open>None\<close> is \<open>NaN\<close>.
\<close>

definition parseInt :: "string \<Rightarrow> int option" where
  "parseInt str =
     (let s = dropWhile isWhiteSpace str;
          negative = (case s of [] \<Rightarrow> False | c # _ \<Rightarrow> c = CHR ''-'');
          s1 = (case s of [] \<Rightarrow> s | c # r \<Rightarrow> if c = CHR ''+'' \<or> c = CHR ''-'' then r else s);
          hex = (take 2 s1 = ''0x'' \<or> take 2 s1 = ''0X'');
          radix = (if hex then 16 else 10);
          s2 = (if hex then drop 2 s1 else s1);
          ds = takeWhile (isDigitOf radix) s2;
          v = foldl (\<lambda>acc c. case digitValue c of None \<Rightarrow> acc | Some d \<Rightarrow> acc * radix + d) 0 ds
      in if ds = [] then None
         else Some (if negative then - int v else int v))"

definition upperChar :: "char \<Rightarrow> char" where
  "upperChar c =
     (case map_of (zip ''abcdefghijklmnopqrstuvwxyz'' ''ABCDEFGHIJKLMNOPQRSTUVWXYZ'') c of
        None \<Rightarrow> c | Some u \<Rightarrow> u)"

definition toUpperCase :: "string \<Rightarrow> string" where
  "toUpperCase s = map upperChar s"

text \<open>The regular expression \<open>/^[0-9]$/\<close>: exactly one decimal digit.\<close>

definition isSingleDigit :: "string \<Rightarrow> bool" where
  "isSingleDigit s = (case s of [c] \<Rightarrow> c \<in> set ''0123456789'' | _ \<Rightarrow> False)"

section \<open>Database operations (Prisma client)\<close>

text \<open>\<open>bet.findMany({ where: { gameRoundId } })\<close>\<close>

definition bet_findMany :: "db \<Rightarrow> id \<Rightarrow> Bet list" where
  "bet_findMany d roundId = filter (\<lambda>b. gameRoundId b = roundId) (bets d)"

text \<open>\<open>bet.update({ where: { id }, data: { result, winAmount } })\<close>; a missing row throws.\<close>

definition setBetResult :: "id \<Rightarrow> BetResult \<Rightarrow> rat \<Rightarrow> Bet \<Rightarrow> Bet" where
  "setBetResult i res win b = (if bet_id b = i then b\<lparr>result := res, winAmount := Some win\<rparr> else b)"

definition bet_update :: "id \<Rightarrow> BetResult \<Rightarrow> rat \<Rightarrow> db \<Rightarrow> error + db" where
  "bet_update i res win d =
     (if \<exists>b \<in> set (bets d). bet_id b = i
      then Inr (d\<lparr>bets := map (setBetResult i res win) (bets d)\<rparr>)
      else Inl RecordNotFound)"

text \<open>\<open>wallet.update({ where: { userId }, data: { balance: { increment } } })\<close>\<close>

definition wallet_increment :: "id \<Rightarrow> rat \<Rightarrow> db \<Rightarrow> error + db" where
  "wallet_increment u x d =
     (case wallets d u of
        None \<Rightarrow> Inl RecordNotFound
      | Some bal \<Rightarrow> Inr (d\<lparr>wallets := (wallets d)(u \<mapsto> bal + x)\<rparr>))"

text \<open>\<open>transaction.create({ data })\<close>\<close>

definition transaction_create :: "Transaction \<Rightarrow> db \<Rightarrow> db" where
  "transaction_create t d = d\<lparr>transactions := transactions d @ [t]\<rparr>"

definition gameRound_findUnique :: "db \<Rightarrow> id \<Rightarrow> GameRound option" where
  "gameRound_findUnique d i = find (\<lambda>r. round_id r = i) (gameRounds d)"

definition gameRound_update :: "id \<Rightarrow> (GameRound \<Rightarrow> GameRound) \<Rightarrow> db \<Rightarrow> error + db" where
  "gameRound_update i f d =
     (if \<exists>r \<in> set (gameRounds d). round_id r = i
      then Inr (d\<lparr>gameRounds := map (\<lambda>r. if round_id r = i then f r else r) (gameRounds d)\<rparr>)
      else Inl RecordNotFound)"

section \<open>Settlement (gameAdmin.service.js, processBetsWithResult)\<close>

definition betTypeName :: "BetType \<Rightarrow> string" where
  "betTypeName t = (case t of COLOR \<Rightarrow> ''COLOR'' | NUMBER \<Rightarrow> ''NUMBER'' | SIZE \<Rightarrow> ''SIZE'')"

text \<open>
  The first half of the loop body: \<open>isWin\<close> and \<open>winAmount\<close> of one bet. The winning
  color and size are \<open>None\<close> where the caller's table lookup gave \<open>undefined\<close>. The amount
  is \<open>None\<close> where the source multiplies by an \<open>undefined\<close> table entry (\<open>NaN\<close>).
\<close>

definition betOutcome :: "int \<Rightarrow> string option \<Rightarrow> string option \<Rightarrow> Bet \<Rightarrow> bool \<times> rat option" where
  "betOutcome winningNumber winColor winSize bet =
     (case betType bet of
        NUMBER \<Rightarrow>
          (if parseInt (selection bet) = Some winningNumber
           then (True, Some (amount bet * PAYOUTS_NUMBER))
           else (False, Some 0))
      | COLOR \<Rightarrow>
          (let betColor = selection bet in
           if betColor = ''VIOLET'' \<and> (winningNumber = 0 \<or> winningNumber = 5)
           then (True, Some (amount bet * PAYOUTS_COLOR_VIOLET))
           else if Some betColor = winColor
           then (if (winningNumber = 0 \<and> betColor = ''GREEN'')
                    \<or> (winningNumber = 5 \<and> betColor = ''RED'')
                 then (True, Some (amount bet * (29 / 20)))
                 else (True, map_option (\<lambda>m. amount bet * m) (Option.bind winColor PAYOUTS_COLOR)))
           else (False, Some 0))
      | SIZE \<Rightarrow>
          (let betSize = selection bet in
           if Some betSize = winSize
           then (True, map_option (\<lambda>m. amount bet * m) (Option.bind winSize PAYOUTS_SIZE))
           else (False, Some 0)))"

text \<open>
  The second half of the loop body, the \<open>prisma.$transaction\<close> block of one bet. Writing
  \<open>NaN\<close> into a decimal column is taken to fail.
\<close>

definition wonTransaction :: "Bet \<Rightarrow> rat \<Rightarrow> Transaction" where
  "wonTransaction bet w =
     \<lparr>tx_userId = userId bet, tx_type = BET_WON, tx_amount = w, tx_status = COMPLETED,
      referenceId = Some (bet_id bet),
      description = ''Won bet on '' @ betTypeName (betType bet) @ '': '' @ selection bet\<rparr>"

definition settleBet :: "db \<Rightarrow> Bet \<Rightarrow> bool \<Rightarrow> rat option \<Rightarrow> error + db" where
  "settleBet d bet isWin win =
     (case (if isWin then win else Some 0) of
        None \<Rightarrow> Inl NotANumber
      | Some w \<Rightarrow>
          (case bet_update (bet_id bet) (if isWin then WON else LOST) w d of
             Inl e \<Rightarrow> Inl e
           | Inr d1 \<Rightarrow>
               if isWin then
                 (case wallet_increment (userId bet) w d1 of
                    Inl e \<Rightarrow> Inl e
                  | Inr d2 \<Rightarrow> Inr (transaction_create (wonTransaction bet w) d2))
               else Inr d1))"

text \<open>One pass of the loop body for one bet: the per-bet settlement unit.\<close>

definition settleOne :: "int \<Rightarrow> string option \<Rightarrow> string option \<Rightarrow> db \<Rightarrow> Bet \<Rightarrow> error + db" where
  "settleOne n c s d bet = (case betOutcome n c s bet of (isWin, win) \<Rightarrow> settleBet d bet isWin win)"

text \<open>The loop over the bets read at the start; an exception leaves the loop.\<close>

fun processBetsLoop :: "int \<Rightarrow> string option \<Rightarrow> string option \<Rightarrow> Bet list \<Rightarrow> db \<Rightarrow> error option \<times> db" where
  "processBetsLoop n c s [] d = (None, d)"
| "processBetsLoop n c s (bet # rest) d =
     (case settleOne n c s d bet of
        Inl e \<Rightarrow> (Some e, d)
      | Inr d' \<Rightarrow> processBetsLoop n c s rest d')"

definition processBetsWithResult ::
  "db \<Rightarrow> id \<Rightarrow> int \<Rightarrow> string option \<Rightarrow> string option \<Rightarrow> error option \<times> db" where
  "processBetsWithResult d roundId winningNumber winColor winSize =
     processBetsLoop winningNumber winColor winSize (bet_findMany d roundId) d"

section \<open>Profit engine (profitEngine.service.js)\<close>

text \<open>
  The fields the constructor sets. \<open>config/env.js\<close> exports neither \<open>MIN_PROFIT_PERCENT\<close>
  nor \<open>MAX_LOSS_PER_ROUND\<close>, so the exported instance has the defaults 5 and 0.
\<close>

record ProfitEngineService =
  MIN_PROFIT_PERCENT :: rat
  MAX_LOSS_PER_ROUND :: rat

definition profitEngine :: ProfitEngineService where
  "profitEngine = \<lparr>MIN_PROFIT_PERCENT = 5, MAX_LOSS_PER_ROUND = 0\<rparr>"

definition HIGH_PROFIT_WEIGHT :: rat where "HIGH_PROFIT_WEIGHT = 70 / 100"
definition MEDIUM_PROFIT_WEIGHT :: rat where "MEDIUM_PROFIT_WEIGHT = 20 / 100"
definition RANDOM_WEIGHT :: rat where "RANDOM_WEIGHT = 10 / 100"

record Calculation =
  calc_gameRoundId :: id
  calc_totalCollection :: rat
  totalBets :: nat
  results :: "Candidate list"

text \<open>
  The body of the inner loop of \<open>calculateAllResultsLiability\<close>: one bet against one
  candidate number, on the accumulators \<open>(colorPayout, sizePayout, numberPayout)\<close>. A
  multiplier that is \<open>undefined\<close> leaves the accumulator as it is; this branch is not
  reached, since \<open>color\<close> and \<open>size\<close> are entries of the two tables (lemma
  \<open>tables_have_multipliers\<close>).
\<close>

definition liabilityStep ::
  "int \<Rightarrow> string option \<Rightarrow> string option \<Rightarrow> rat \<times> rat \<times> rat \<Rightarrow> Bet \<Rightarrow> rat \<times> rat \<times> rat" where
  "liabilityStep num col sz acc bet =
     (case acc of (colorPay, sizePay, numberPay) \<Rightarrow>
       (case betType bet of
          COLOR \<Rightarrow>
            (if Some (selection bet) = col
             then (let multiplier = (if col = Some ''VIOLET'' then Some PAYOUTS_COLOR_VIOLET
                                     else Option.bind col PAYOUTS_COLOR)
                   in case multiplier of
                        None \<Rightarrow> acc
                      | Some m \<Rightarrow> (colorPay + amount bet * m, sizePay, numberPay))
             else if selection bet = ''VIOLET'' \<and> (num = 0 \<or> num = 5)
             then (colorPay + amount bet * PAYOUTS_COLOR_VIOLET, sizePay, numberPay)
             else acc)
        | SIZE \<Rightarrow>
            (if Some (selection bet) = sz
             then (case Option.bind sz PAYOUTS_SIZE of
                     None \<Rightarrow> acc
                   | Some m \<Rightarrow> (colorPay, sizePay + amount bet * m, numberPay))
             else acc)
        | NUMBER \<Rightarrow>
            (if parseInt (selection bet) = Some num
             then (colorPay, sizePay, numberPay + amount bet * PAYOUTS_NUMBER)
             else acc)))"

text \<open>The body of the outer loop: the candidate pushed for one number.\<close>

definition liabilityCandidate :: "ProfitEngineService \<Rightarrow> Bet list \<Rightarrow> rat \<Rightarrow> int \<Rightarrow> Candidate" where
  "liabilityCandidate this roundBets collection num =
     (let col = NUMBER_COLORS num;
          sz = NUMBER_SIZES num
      in case foldl (liabilityStep num col sz) (0, 0, 0) roundBets of
           (colorPay, sizePay, numberPay) \<Rightarrow>
             (let liability = colorPay + sizePay + numberPay;
                  prof = collection - liability;
                  percent = (if collection > 0 then (prof / collection) * 100 else 0)
              in \<lparr>number = num, color = col, size_of = sz,
                  colorPayout = colorPay, sizePayout = sizePay, numberPayout = numberPay,
                  totalLiability = liability, totalCollection = collection,
                  profit = prof, profitPercent = percent,
                  isProfitable = (prof \<ge> 0 \<and> percent \<ge> MIN_PROFIT_PERCENT this),
                  isAcceptable = (prof \<ge> - MAX_LOSS_PER_ROUND this)\<rparr>))"

definition candidateNumbers :: "int list" where
  "candidateNumbers = [0, 1, 2, 3, 4, 5, 6, 7, 8, 9]"

text \<open>
  \<open>results.sort((a, b) => b.profit - a.profit)\<close>: \<open>Array.prototype.sort\<close> is stable, so this
  is the stable sort on the key \<open>- profit\<close>.
\<close>

definition sortByProfit :: "Candidate list \<Rightarrow> Candidate list" where
  "sortByProfit rs = sort_key (\<lambda>r. - profit r) rs"

definition calculateAllResultsLiability ::
  "ProfitEngineService \<Rightarrow> db \<Rightarrow> id \<Rightarrow> Calculation option" where
  "calculateAllResultsLiability this d roundId =
     (let roundBets = bet_findMany d roundId
      in if length roundBets = 0 then None
         else (let collection = foldl (\<lambda>sum bet. sum + amount bet) 0 roundBets;
                   rs = map (liabilityCandidate this roundBets collection) candidateNumbers
               in Some \<lparr>calc_gameRoundId = roundId, calc_totalCollection = collection,
                        totalBets = length roundBets, results = sortByProfit rs\<rparr>))"

text \<open>\<open>xs[i]\<close>: \<open>undefined\<close> out of range.\<close>

definition at_index :: "'a list \<Rightarrow> nat \<Rightarrow> 'a option" where
  "at_index xs i = (if i < length xs then Some (xs ! i) else None)"

text \<open>
  What \<open>selectWeightedResult\<close> returns: \<open>results[0]\<close> as it is when nothing is acceptable,
  otherwise the object \<open>{...selected, selectedRank, allResults}\<close>, where a \<open>selected\<close> that is
  \<open>undefined\<close> contributes no field. \<open>rnd1\<close> and \<open>rnd2\<close> are the two values of
  \<open>Math.random()\<close>, in the order of the calls.
\<close>

datatype Selected =
    LeastLoss "Candidate option"
  | Ranked "Candidate option" string "Candidate list"

definition selectWeightedResult :: "Calculation \<Rightarrow> rat \<Rightarrow> rat \<Rightarrow> Selected" where
  "selectWeightedResult calculatedResults rnd1 rnd2 =
     (let rs = results calculatedResults;
          acceptableResults = filter isAcceptable rs
      in if length acceptableResults = 0 then LeastLoss (at_index rs 0)
         else (let profitableResults = filter isProfitable acceptableResults;
                   highProfit = at_index profitableResults 0;
                   mediumProfit =
                     (case at_index profitableResults (length profitableResults div 2) of
                        None \<Rightarrow> highProfit
                      | Some m \<Rightarrow> Some m);
                   randomResult =
                     at_index acceptableResults
                       (nat \<lfloor>rnd1 * of_nat (length acceptableResults)\<rfloor>);
                   random = rnd2
               in if random < HIGH_PROFIT_WEIGHT
                  then Ranked highProfit ''HIGH_PROFIT'' rs
                  else if random < HIGH_PROFIT_WEIGHT + MEDIUM_PROFIT_WEIGHT
                  then Ranked mediumProfit ''MEDIUM_PROFIT'' rs
                  else Ranked randomResult ''RANDOM'' rs))"

text \<open>
  \<open>Object.entries(table).find(([num, x]) => x === v)?.[0] || 0\<close>, parsed: the first number
  of the table whose entry is \<open>v\<close>, and 0 when there is none.
\<close>

definition firstNumberWith :: "(int \<times> string) list \<Rightarrow> string \<Rightarrow> int" where
  "firstNumberWith entries v =
     (case find (\<lambda>e. snd e = v) entries of None \<Rightarrow> 0 | Some e \<Rightarrow> fst e)"

datatype Warning = NoBetsPlaced | NotProfitable Candidate

text \<open>The object \<open>validateAdminResult\<close> returns: \<open>{valid, warning, error, result}\<close>.\<close>

datatype Validation =
    Valid "Warning option" "Candidate option"
  | Invalid error "Candidate option"

text \<open>
  \<open>targetNumber\<close>: \<open>None\<close> is \<open>null\<close>. For a single digit \<open>parseInt\<close> is a number; a
  \<open>NaN\<close> would match no candidate and is sent to the same \<open>TypeError\<close>.
\<close>

definition targetNumberOf :: "string \<Rightarrow> int option option" where
  "targetNumberOf winningOption =
     (if isSingleDigit winningOption then Some (parseInt winningOption)
      else if toUpperCase winningOption \<in> set [''GREEN'', ''RED'', ''VIOLET'']
      then Some (Some (firstNumberWith NUMBER_COLORS_entries (toUpperCase winningOption)))
      else if toUpperCase winningOption \<in> set [''BIG'', ''SMALL'']
      then Some (Some (firstNumberWith NUMBER_SIZES_entries (toUpperCase winningOption)))
      else None)"

definition validateAdminResult ::
  "ProfitEngineService \<Rightarrow> db \<Rightarrow> id \<Rightarrow> string \<Rightarrow> error + Validation" where
  "validateAdminResult this d roundId winningOption =
     (case calculateAllResultsLiability this d roundId of
        None \<Rightarrow> Inr (Valid (Some NoBetsPlaced) None)
      | Some calculation \<Rightarrow>
          (case targetNumberOf winningOption of
             None \<Rightarrow> Inr (Invalid InvalidWinningOptionValidation None)
           | Some target \<Rightarrow>
               (case find (\<lambda>r. Some (number r) = target) (results calculation) of
                  None \<Rightarrow> Inl TypeError
                | Some r \<Rightarrow>
                    if \<not> isAcceptable r then Inr (Invalid (ExceedsMaxLoss r) (Some r))
                    else if \<not> isProfitable r then Inr (Valid (Some (NotProfitable r)) (Some r))
                    else Inr (Valid None (Some r)))))"

text \<open>
  The object \<open>calculateOptimalResult\<close> returns: the candidate chosen, with \<open>selectedRank\<close>
  where the source sets it, or the record made up for a round with no bets.
\<close>

record OptimalResult =
  opt_number :: int
  opt_color :: "string option"
  opt_size :: "string option"
  opt_totalCollection :: rat
  opt_totalLiability :: rat
  opt_profit :: rat
  opt_profitPercent :: rat
  selectedRank :: "string option"
  opt_isProfitable :: bool

definition optimalOf :: "Candidate \<Rightarrow> string option \<Rightarrow> OptimalResult" where
  "optimalOf c rank =
     \<lparr>opt_number = number c, opt_color = color c, opt_size = size_of c,
      opt_totalCollection = totalCollection c, opt_totalLiability = totalLiability c,
      opt_profit = profit c, opt_profitPercent = profitPercent c,
      selectedRank = rank, opt_isProfitable = isProfitable c\<rparr>"

text \<open>
  \<open>rnd0\<close> is the \<open>Math.random()\<close> of the branch without bets. The log line reads
  \<open>selected.profit.toFixed(2)\<close>: a \<open>selected\<close> without the candidate's fields throws a
  \<open>TypeError\<close>.
\<close>

definition calculateOptimalResult ::
  "ProfitEngineService \<Rightarrow> db \<Rightarrow> id \<Rightarrow> rat \<Rightarrow> rat \<Rightarrow> rat \<Rightarrow> error + OptimalResult" where
  "calculateOptimalResult this d roundId rnd0 rnd1 rnd2 =
     (case calculateAllResultsLiability this d roundId of
        None \<Rightarrow>
          (let randomNumber = \<lfloor>rnd0 * 10\<rfloor>
           in Inr \<lparr>opt_number = randomNumber, opt_color = NUMBER_COLORS randomNumber,
                   opt_size = NUMBER_SIZES randomNumber, opt_totalCollection = 0,
                   opt_totalLiability = 0, opt_profit = 0, opt_profitPercent = 0,
                   selectedRank = Some ''RANDOM_NO_BETS'', opt_isProfitable = True\<rparr>)
      | Some calculation \<Rightarrow>
          (case selectWeightedResult calculation rnd1 rnd2 of
             LeastLoss None \<Rightarrow> Inl TypeError
           | LeastLoss (Some c) \<Rightarrow> Inr (optimalOf c None)
           | Ranked None rank rs \<Rightarrow> Inl TypeError
           | Ranked (Some c) rank rs \<Rightarrow> Inr (optimalOf c (Some rank))))"

text \<open>\<open>storeCalculationData\<close>: an error of the update is caught and logged.\<close>

definition storeCalculationData :: "id \<Rightarrow> OptimalResult \<Rightarrow> Calculation option \<Rightarrow> db \<Rightarrow> db" where
  "storeCalculationData roundId selectedResult allCalculations d =
     (case gameRound_update roundId
             (\<lambda>r. r\<lparr>r_totalCollection := Some (opt_totalCollection selectedResult),
                     r_totalPayout := Some (opt_totalLiability selectedResult),
                     r_profit := Some (opt_profit selectedResult),
                     r_profitPercent := Some (opt_profitPercent selectedResult),
                     calculationData := map_option results allCalculations,
                     selectedResultRank :=
                       (case selectedRank selectedResult of
                          None \<Rightarrow> selectedResultRank r | Some k \<Rightarrow> Some k),
                     r_isProfitable := opt_isProfitable selectedResult,
                     lossAmount := (if opt_profit selectedResult < 0
                                    then Some \<bar>opt_profit selectedResult\<bar> else None)\<rparr>) d of
        Inl e \<Rightarrow> d
      | Inr d' \<Rightarrow> d')"

section \<open>Admin game control (gameAdmin.service.js)\<close>

text \<open>
  The winning option as \<open>declareResult\<close> parses it: number, color and size, or \<open>None\<close>
  where the source throws \<open>Invalid winning option\<close>. \<open>numbersWith...[0] || 0\<close> is the first
  matching number, or 0. For a single digit \<open>parseInt\<close> is a number (lemma
  \<open>parseInt_single_digit\<close>).
\<close>

definition numbersWith :: "(int \<times> string) list \<Rightarrow> string \<Rightarrow> int list" where
  "numbersWith entries v = map fst (filter (\<lambda>e. snd e = v) entries)"

definition firstOrZero :: "int list \<Rightarrow> int" where
  "firstOrZero ns = (case ns of [] \<Rightarrow> 0 | n # _ \<Rightarrow> n)"

definition parseWinningOption :: "string \<Rightarrow> (int \<times> string option \<times> string option) option" where
  "parseWinningOption winningOption =
     (if isSingleDigit winningOption
      then (case parseInt winningOption of
              None \<Rightarrow> None
            | Some n \<Rightarrow> Some (n, NUMBER_COLORS n, NUMBER_SIZES n))
      else if toUpperCase winningOption \<in> set [''GREEN'', ''RED'', ''VIOLET'']
      then (let winColor = toUpperCase winningOption;
                n = firstOrZero (numbersWith NUMBER_COLORS_entries winColor)
            in Some (n, Some winColor, NUMBER_SIZES n))
      else if toUpperCase winningOption \<in> set [''BIG'', ''SMALL'']
      then (let winSize = toUpperCase winningOption;
                n = firstOrZero (numbersWith NUMBER_SIZES_entries winSize)
            in Some (n, NUMBER_COLORS n, Some winSize))
      else None)"

text \<open>
  \<open>cleanupOldRounds\<close>: beyond 500 declared rounds, the oldest by \<open>declaredAt\<close> (nulls last)
  and their bets are deleted.
\<close>

definition declaredOldestFirst :: "GameRound list \<Rightarrow> GameRound list" where
  "declaredOldestFirst rs =
     (let declared = filter (\<lambda>r. resultStatus r = DECLARED) rs
      in sort_key (\<lambda>r. case declaredAt r of None \<Rightarrow> 0 | Some t \<Rightarrow> t)
           (filter (\<lambda>r. declaredAt r \<noteq> None) declared)
         @ filter (\<lambda>r. declaredAt r = None) declared)"

definition cleanupOldRounds :: "db \<Rightarrow> db" where
  "cleanupOldRounds d =
     (let roundCount = length (filter (\<lambda>r. resultStatus r = DECLARED) (gameRounds d))
      in if roundCount > 500
         then (let roundsToDelete = roundCount - 500;
                   roundIds = map round_id (take roundsToDelete (declaredOldestFirst (gameRounds d)))
               in d\<lparr>bets := filter (\<lambda>b. gameRoundId b \<notin> set roundIds) (bets d),
                     gameRounds := filter (\<lambda>r. round_id r \<notin> set roundIds) (gameRounds d)\<rparr>)
         else d)"

record Declared =
  updatedRound :: "GameRound option"
  winningNumber :: int
  declaredColor :: "string option"
  declaredSize :: "string option"
  declaredProfit :: rat
  declaredProfitPercent :: rat

text \<open>The \<open>data\<close> of the round update in \<open>declareResult\<close>; \<open>x || 0\<close> of a number is the number.\<close>

definition declareUpdate ::
  "int \<Rightarrow> string option \<Rightarrow> string option \<Rightarrow> id \<Rightarrow> nat \<Rightarrow> Calculation option
     \<Rightarrow> Candidate option \<Rightarrow> GameRound \<Rightarrow> GameRound" where
  "declareUpdate n winColor winSize adminId now calculation selectedResult r =
     r\<lparr>r_number := Some n, winningColor := winColor, winningSize := winSize,
       status := RESULT_DECLARED, resultStatus := DECLARED,
       resultDeclaredBy := Some ADMIN, declaredAt := Some now,
       declaredByAdminId := Some adminId, endTime := Some now,
       r_totalCollection := Some (case selectedResult of None \<Rightarrow> 0 | Some c \<Rightarrow> totalCollection c),
       r_totalPayout := Some (case selectedResult of None \<Rightarrow> 0 | Some c \<Rightarrow> totalLiability c),
       r_profit := Some (case selectedResult of None \<Rightarrow> 0 | Some c \<Rightarrow> profit c),
       r_profitPercent := Some (case selectedResult of None \<Rightarrow> 0 | Some c \<Rightarrow> profitPercent c),
       calculationData := map_option results calculation,
       selectedResultRank := Some ''ADMIN_DECLARED'',
       r_isProfitable := (case selectedResult of None \<Rightarrow> False | Some c \<Rightarrow> isProfitable c),
       lossAmount := (case selectedResult of
                        None \<Rightarrow> None
                      | Some c \<Rightarrow> if profit c < 0 then Some \<bar>profit c\<bar> else None)\<rparr>"

definition declareResult ::
  "ProfitEngineService \<Rightarrow> db \<Rightarrow> id \<Rightarrow> string \<Rightarrow> id \<Rightarrow> nat \<Rightarrow> (error + Declared) \<times> db" where
  "declareResult engine d roundId winningOption adminId now =
     (case gameRound_findUnique d roundId of
        None \<Rightarrow> (Inl GameRoundNotFound, d)
      | Some gameRound \<Rightarrow>
          if resultStatus gameRound = DECLARED then (Inl ResultAlreadyDeclared, d)
          else if status gameRound = CANCELLED then (Inl CannotDeclareCancelled, d)
          else
            (case validateAdminResult engine d roundId winningOption of
               Inl e \<Rightarrow> (Inl e, d)
             | Inr (Invalid e r) \<Rightarrow> (Inl e, d)
             | Inr (Valid w r) \<Rightarrow>
                 (case parseWinningOption winningOption of
                    None \<Rightarrow> (Inl InvalidWinningOption, d)
                  | Some (n, winColor, winSize) \<Rightarrow>
                      (let calculation = calculateAllResultsLiability engine d roundId;
                           selectedResult =
                             (case calculation of
                                None \<Rightarrow> None
                              | Some c \<Rightarrow> find (\<lambda>r. number r = n) (results c))
                       in case gameRound_update roundId
                                 (declareUpdate n winColor winSize adminId now calculation
                                    selectedResult) d of
                            Inl e \<Rightarrow> (Inl e, d)
                          | Inr d1 \<Rightarrow>
                              (case processBetsWithResult d1 (round_id gameRound) n winColor winSize of
                                 (Some e, d2) \<Rightarrow> (Inl e, d2)
                               | (None, d2) \<Rightarrow>
                                   (Inr \<lparr>updatedRound = gameRound_findUnique d1 roundId,
                                         winningNumber = n, declaredColor = winColor,
                                         declaredSize = winSize,
                                         declaredProfit =
                                           (case selectedResult of None \<Rightarrow> 0 | Some c \<Rightarrow> profit c),
                                         declaredProfitPercent =
                                           (case selectedResult of
                                              None \<Rightarrow> 0 | Some c \<Rightarrow> profitPercent c)\<rparr>,
                                    cleanupOldRounds d2))))))"

text \<open>
  \<open>saveSystemResult\<close> and \<open>autoCalculateResult\<close>, the declaration by the system. A field of
  \<open>updateData\<close> that is \<open>undefined\<close> is not written.
\<close>

definition systemUpdate ::
  "int \<Rightarrow> nat \<Rightarrow> OptimalResult option \<Rightarrow> Calculation option \<Rightarrow> GameRound \<Rightarrow> GameRound" where
  "systemUpdate n now profitData calculation r =
     (let r1 = r\<lparr>r_number := Some n, winningColor := NUMBER_COLORS n,
                  winningSize := NUMBER_SIZES n, status := RESULT_DECLARED,
                  resultStatus := DECLARED, resultDeclaredBy := Some SYSTEM,
                  declaredAt := Some now, endTime := Some now\<rparr>;
          r2 = (case profitData of
                  None \<Rightarrow> r1
                | Some p \<Rightarrow>
                    r1\<lparr>r_totalCollection := Some (opt_totalCollection p),
                       r_totalPayout := Some (opt_totalLiability p),
                       r_profit := Some (opt_profit p),
                       r_profitPercent := Some (opt_profitPercent p),
                       selectedResultRank :=
                         (case selectedRank p of None \<Rightarrow> selectedResultRank r1 | Some k \<Rightarrow> Some k),
                       r_isProfitable := opt_isProfitable p,
                       lossAmount := (if opt_profit p < 0 then Some \<bar>opt_profit p\<bar> else None)\<rparr>)
      in case calculation of
           None \<Rightarrow> r2
         | Some c \<Rightarrow> r2\<lparr>calculationData := Some (results c)\<rparr>)"

definition saveSystemResult ::
  "db \<Rightarrow> id \<Rightarrow> int \<Rightarrow> nat \<Rightarrow> OptimalResult option \<Rightarrow> Calculation option
     \<Rightarrow> (error + GameRound option) \<times> db" where
  "saveSystemResult d roundId n now profitData calculation =
     (case gameRound_update roundId (systemUpdate n now profitData calculation) d of
        Inl e \<Rightarrow> (Inl e, d)
      | Inr d1 \<Rightarrow>
          (case processBetsWithResult d1 roundId n (NUMBER_COLORS n) (NUMBER_SIZES n) of
             (Some e, d2) \<Rightarrow> (Inl e, d2)
           | (None, d2) \<Rightarrow> (Inr (gameRound_findUnique d1 roundId), d2)))"

definition autoCalculateResult ::
  "ProfitEngineService \<Rightarrow> db \<Rightarrow> id \<Rightarrow> rat \<Rightarrow> rat \<Rightarrow> rat \<Rightarrow> nat
     \<Rightarrow> (error + GameRound option) \<times> db" where
  "autoCalculateResult engine d roundId rnd0 rnd1 rnd2 now =
     (case calculateOptimalResult engine d roundId rnd0 rnd1 rnd2 of
        Inl e \<Rightarrow> (Inl e, d)
      | Inr optimalResult \<Rightarrow>
          (let calculation = calculateAllResultsLiability engine d roundId;
               d1 = storeCalculationData roundId optimalResult calculation d
           in saveSystemResult d1 roundId (opt_number optimalResult) now
                (Some optimalResult) calculation))"

text \<open>\<open>cancelRound\<close>: the refund loop runs inside one transaction with the round update.\<close>

definition refundTransaction :: "string \<Rightarrow> Bet \<Rightarrow> Transaction" where
  "refundTransaction per bet =
     \<lparr>tx_userId = userId bet, tx_type = REFUND, tx_amount = amount bet, tx_status = COMPLETED,
      referenceId = Some (bet_id bet),
      description = ''Refund for cancelled round '' @ per\<rparr>"

fun refundLoop :: "string \<Rightarrow> Bet list \<Rightarrow> db \<Rightarrow> error + db" where
  "refundLoop per [] d = Inr d"
| "refundLoop per (bet # rest) d =
     (if result bet = PENDING
      then (case wallet_increment (userId bet) (amount bet) d of
              Inl e \<Rightarrow> Inl e
            | Inr d1 \<Rightarrow>
                (case bet_update (bet_id bet) BET_CANCELLED 0 d1 of
                   Inl e \<Rightarrow> Inl e
                 | Inr d2 \<Rightarrow> refundLoop per rest (transaction_create (refundTransaction per bet) d2)))
      else refundLoop per rest d)"

definition cancelRound :: "db \<Rightarrow> id \<Rightarrow> id \<Rightarrow> nat \<Rightarrow> (error + nat) \<times> db" where
  "cancelRound d roundId adminId now =
     (case gameRound_findUnique d roundId of
        None \<Rightarrow> (Inl GameRoundNotFound, d)
      | Some gameRound \<Rightarrow>
          if status gameRound = CANCELLED then (Inl RoundAlreadyCancelled, d)
          else if resultStatus gameRound = DECLARED then (Inl CannotCancelDeclared, d)
          else (let roundBets = bet_findMany d roundId
                in case gameRound_update roundId
                          (\<lambda>r. r\<lparr>status := CANCELLED, endTime := Some now\<rparr>) d of
                     Inl e \<Rightarrow> (Inl e, d)
                   | Inr d1 \<Rightarrow>
                       (case refundLoop (period gameRound) roundBets d1 of
                          Inl e \<Rightarrow> (Inl e, d)
                        | Inr d2 \<Rightarrow> (Inr (length roundBets), d2))))"

section \<open>Bet placement (bet.service.js)\<close>

record BetData =
  bd_gameRoundId :: id
  bd_betType :: BetType
  bd_selection :: string
  bd_amount :: rat

text \<open>\<open>bet.create\<close>: the database generates the id, here \<open>newId\<close>; the primary key is unique.\<close>

definition bet_create :: "Bet \<Rightarrow> db \<Rightarrow> error + db" where
  "bet_create b d =
     (if \<exists>x \<in> set (bets d). bet_id x = bet_id b then Inl UniqueConstraintFailed
      else Inr (d\<lparr>bets := bets d @ [b]\<rparr>))"

definition placedTransaction :: "Bet \<Rightarrow> Transaction" where
  "placedTransaction b =
     \<lparr>tx_userId = userId b, tx_type = BET_PLACED, tx_amount = amount b, tx_status = COMPLETED,
      referenceId = Some (bet_id b),
      description = ''Bet placed on '' @ betTypeName (betType b) @ '': '' @ selection b\<rparr>"

definition potentialWinOf :: "BetType \<Rightarrow> string \<Rightarrow> rat \<Rightarrow> rat" where
  "potentialWinOf t normalizedSelection betAmount =
     (case t of
        COLOR \<Rightarrow> betAmount * (case PAYOUTS_COLOR normalizedSelection of None \<Rightarrow> 39 / 20 | Some m \<Rightarrow> m)
      | NUMBER \<Rightarrow> betAmount * PAYOUTS_NUMBER
      | SIZE \<Rightarrow> betAmount * (case PAYOUTS_SIZE normalizedSelection of None \<Rightarrow> 39 / 20 | Some m \<Rightarrow> m))"

definition placeBet :: "db \<Rightarrow> id \<Rightarrow> BetData \<Rightarrow> id \<Rightarrow> (error + Bet) \<times> db" where
  "placeBet d uid betData newId =
     (let betAmount = bd_amount betData
      in case gameRound_findUnique d (bd_gameRoundId betData) of
           None \<Rightarrow> (Inl GameRoundNotFound, d)
         | Some gameRound \<Rightarrow>
             if status gameRound = PAUSED then (Inl BettingPaused, d)
             else if status gameRound = CLOSED then (Inl BettingClosed, d)
             else if status gameRound = CANCELLED then (Inl RoundCancelled, d)
             else if status gameRound = RESULT_DECLARED then (Inl ResultAlreadyDeclared, d)
             else if resultStatus gameRound = DECLARED then (Inl ResultAlreadyDeclared, d)
             else if (case wallets d uid of None \<Rightarrow> True | Some bal \<Rightarrow> bal < betAmount)
             then (Inl InsufficientBalance, d)
             else if \<exists>b \<in> set (bets d). userId b = uid \<and> gameRoundId b = bd_gameRoundId betData
             then (Inl AlreadyPlacedBet, d)
             else (let normalizedSelection = toUpperCase (bd_selection betData);
                       newBet = \<lparr>bet_id = newId, userId = uid,
                                 gameRoundId = bd_gameRoundId betData,
                                 betType = bd_betType betData, selection = normalizedSelection,
                                 amount = betAmount,
                                 potentialWin =
                                   potentialWinOf (bd_betType betData) normalizedSelection betAmount,
                                 result = PENDING, winAmount = None\<rparr>
                   in case wallet_increment uid (- betAmount) d of
                        Inl e \<Rightarrow> (Inl e, d)
                      | Inr d1 \<Rightarrow>
                          (case bet_create newBet d1 of
                             Inl e \<Rightarrow> (Inl e, d)
                           | Inr d2 \<Rightarrow> (Inr newBet, transaction_create (placedTransaction newBet) d2))))"

section \<open>Effects, as the theorems state them\<close>

text \<open>What cancelling a round does to one bet row, and what it owes one user.\<close>

definition cancelBet :: "id \<Rightarrow> Bet \<Rightarrow> Bet" where
  "cancelBet roundId b =
     (if gameRoundId b = roundId \<and> result b = PENDING
      then b\<lparr>result := BET_CANCELLED, winAmount := Some 0\<rparr> else b)"

definition pendingBets :: "db \<Rightarrow> id \<Rightarrow> Bet list" where
  "pendingBets d roundId = filter (\<lambda>b. result b = PENDING) (bet_findMany d roundId)"

definition refundOwed :: "db \<Rightarrow> id \<Rightarrow> id \<Rightarrow> rat" where
  "refundOwed d roundId u = sum_list (map amount (filter (\<lambda>b. userId b = u) (pendingBets d roundId)))"

definition cancelIds :: "id set \<Rightarrow> Bet \<Rightarrow> Bet" where
  "cancelIds S x = (if bet_id x \<in> S then x\<lparr>result := BET_CANCELLED, winAmount := Some 0\<rparr> else x)"






section \<open>Example rounds\<close>

text \<open>Concrete databases on which the theorems below are evaluated.\<close>

definition openRound :: GameRound where
  "openRound = \<lparr>round_id = ''r1'', period = ''202611020001'', status = OPEN,
      resultStatus = RESULT_PENDING, r_number = None, winningColor = None, winningSize = None,
      resultDeclaredBy = None, declaredAt = None, declaredByAdminId = None, endTime = None,
      r_totalCollection = None, r_totalPayout = None, r_profit = None, r_profitPercent = None,
      calculationData = None, selectedResultRank = None, r_isProfitable = False,
      lossAmount = None\<rparr>"

definition mkBet :: "id \<Rightarrow> id \<Rightarrow> BetType \<Rightarrow> string \<Rightarrow> rat \<Rightarrow> Bet" where
  "mkBet i u t sel a = \<lparr>bet_id = i, userId = u, gameRoundId = ''r1'', betType = t,
      selection = sel, amount = a, potentialWin = potentialWinOf t sel a, result = PENDING,
      winAmount = None\<rparr>"

definition roundWith :: "Bet list \<Rightarrow> db" where
  "roundWith bs = \<lparr>gameRounds = [openRound], bets = bs,
      wallets = [''u1'' \<mapsto> 900, ''u2'' \<mapsto> 900, ''u3'' \<mapsto> 900], transactions = []\<rparr>"

definition greenBet :: Bet where "greenBet = mkBet ''b1'' ''u1'' COLOR ''GREEN'' 100"

definition scenarioB :: db where "scenarioB = roundWith [greenBet]"

definition greenRed :: db where
  "greenRed = roundWith [greenBet, mkBet ''b2'' ''u2'' COLOR ''RED'' 100]"

definition bigSmall :: db where
  "bigSmall = roundWith [mkBet ''b1'' ''u1'' SIZE ''BIG'' 100, mkBet ''b2'' ''u2'' SIZE ''SMALL'' 100]"

definition scenarioE :: db where
  "scenarioE = roundWith [mkBet ''b1'' ''u1'' NUMBER ''7'' 1000, mkBet ''b2'' ''u2'' COLOR ''RED'' 2500]"

definition pausedRound :: db where
  "pausedRound = \<lparr>gameRounds = [openRound\<lparr>status := PAUSED\<rparr>], bets = [],
      wallets = [''u1'' \<mapsto> 900], transactions = []\<rparr>"

definition scenarioF :: db where
  "scenarioF = roundWith [mkBet ''b1'' ''u1'' COLOR ''GREEN'' 50, mkBet ''b2'' ''u2'' SIZE ''BIG'' 75,
                          mkBet ''b3'' ''u3'' NUMBER ''4'' 20]"

section \<open>The per-bet settlement unit\<close>




text \<open>
  With the color the table gives for 0 and 5, a \<open>GREEN\<close> bet on 0 and a \<open>RED\<close> bet on 5 lose.
\<close>

lemma green_on_zero_loses:
  assumes "betType b = COLOR" and "selection b = ''GREEN''"
  shows "betOutcome 0 (NUMBER_COLORS 0) (NUMBER_SIZES 0) b = (False, Some 0)"
  using assms
  by (simp add: betOutcome_def NUMBER_COLORS_def NUMBER_COLORS_entries_def)

lemma red_on_five_loses:
  assumes "betType b = COLOR" and "selection b = ''RED''"
  shows "betOutcome 5 (NUMBER_COLORS 5) (NUMBER_SIZES 5) b = (False, Some 0)"
  using assms
  by (simp add: betOutcome_def NUMBER_COLORS_def NUMBER_COLORS_entries_def)

text \<open>
  C2. Scenario B: a single \<open>COLOR\<close>/\<open>GREEN\<close> bet of 100, and digit 0 declared with its derived
  color \<open>VIOLET\<close> and size \<open>SMALL\<close>. The claim expects \<open>WON\<close> with 145 credited. Settlement
  compares the bet's color with the winning color, which for 0 is \<open>VIOLET\<close>, so the bet is
  marked \<open>LOST\<close> with win amount 0 and nothing is credited: the reduced 1.45 branch is
  never reached.
\<close>

theorem dual_color_green_on_zero_loses:
  "NUMBER_COLORS 0 = Some ''VIOLET'' \<and> NUMBER_SIZES 0 = Some ''SMALL''
   \<and> bet_findMany scenarioB ''r1'' = [greenBet]
   \<and> betType greenBet = COLOR \<and> selection greenBet = ''GREEN'' \<and> amount greenBet = 100
   \<and> processBetsWithResult scenarioB ''r1'' 0 (Some ''VIOLET'') (Some ''SMALL'')
       = (None, scenarioB\<lparr>bets := [greenBet\<lparr>result := LOST, winAmount := Some 0\<rparr>]\<rparr>)"
  by (simp add: processBetsWithResult_def bet_findMany_def scenarioB_def roundWith_def greenBet_def
      mkBet_def settleOne_def setBetResult_def
      betOutcome_def settleBet_def bet_update_def NUMBER_COLORS_def NUMBER_SIZES_def
      NUMBER_COLORS_entries_def NUMBER_SIZES_entries_def)

section \<open>Admin validation and bet placement\<close>

text \<open>
  C9. For a round without bets, \<open>validateAdminResult\<close> answers valid with the warning
  \<open>No bets placed\<close> for every winning option: the option is not parsed and no candidate is
  checked against the maximum loss.
\<close>

theorem validate_empty_round_always_valid:
  "bet_findMany d roundId = [] \<Longrightarrow>
     validateAdminResult engine d roundId winningOption = Inr (Valid (Some NoBetsPlaced) None)"
  by (simp add: validateAdminResult_def calculateAllResultsLiability_def)

theorem validate_empty_round_always_valid_witness:
  "bet_findMany pausedRound ''r1'' = []
   \<and> targetNumberOf ''banana'' = None
   \<and> validateAdminResult profitEngine pausedRound ''r1'' ''banana''
        = Inr (Valid (Some NoBetsPlaced) None)"
proof -
  have e: "bet_findMany pausedRound ''r1'' = []"
    by (simp add: bet_findMany_def pausedRound_def)
  have "targetNumberOf ''banana'' = None"
    by (simp add: targetNumberOf_def isSingleDigit_def toUpperCase_def upperChar_def)
  with e validate_empty_round_always_valid [OF e, of profitEngine "''banana''"] show ?thesis
    by simp
qed

text \<open>
  C4. A bet on a round whose status is not \<open>OPEN\<close> is rejected, and the database is left as
  it was: no debit, no bet row, no transaction.
\<close>

theorem placeBet_rejected_unless_open:
  assumes "gameRound_findUnique d (bd_gameRoundId betData) = Some r"
    and "status r \<noteq> OPEN"
  shows "\<exists>e. placeBet d uid betData newId = (Inl e, d)"
  using assms by (cases "status r") (simp_all add: placeBet_def Let_def)

theorem placeBet_rejected_unless_open_witness:
  "gameRound_findUnique pausedRound ''r1'' = Some (openRound\<lparr>status := PAUSED\<rparr>)
   \<and> (\<exists>e. placeBet pausedRound ''u1''
          \<lparr>bd_gameRoundId = ''r1'', bd_betType = COLOR, bd_selection = ''green'', bd_amount = 100\<rparr>
          ''b9'' = (Inl e, pausedRound))"
proof -
  have f: "gameRound_findUnique pausedRound
             (bd_gameRoundId \<lparr>bd_gameRoundId = ''r1'', bd_betType = COLOR,
                              bd_selection = ''green'', bd_amount = 100\<rparr>)
           = Some (openRound\<lparr>status := PAUSED\<rparr>)"
    by (simp add: gameRound_findUnique_def pausedRound_def openRound_def)
  have s: "status (openRound\<lparr>status := PAUSED\<rparr>) \<noteq> OPEN" by simp
  from f placeBet_rejected_unless_open [OF f s, of "''u1''" "''b9''"] show ?thesis by simp
qed

section \<open>The candidates of the liability calculator\<close>

lemma find_by_key:
  "distinct (map f xs) \<Longrightarrow> x \<in> set xs \<Longrightarrow> find (\<lambda>r. f r = f x) xs = Some x"
proof (induction xs)
  case Nil
  then show ?case by simp
next
  case (Cons a xs)
  then show ?case by (cases "a = x") force+
qed

lemma number_liabilityCandidate: "number (liabilityCandidate this bs t n) = n"
  by (simp add: liabilityCandidate_def Let_def split: prod.splits)

lemma numbers_of_candidates:
  "map number (map (liabilityCandidate this bs t) ns) = ns"
  by (induction ns) (simp_all add: number_liabilityCandidate)

lemma distinct_candidateNumbers: "distinct candidateNumbers"
  by (simp add: candidateNumbers_def)

lemma distinct_map_sort_key:
  "distinct (map f (sort_key g xs)) = distinct (map f xs)"
  by (simp add: distinct_map)

lemma distinct_numbers_sorted:
  "distinct (map number (sortByProfit (map (liabilityCandidate this bs t) candidateNumbers)))"
  unfolding sortByProfit_def distinct_map_sort_key numbers_of_candidates
  by (rule distinct_candidateNumbers)

lemma find_candidate:
  assumes "n \<in> set candidateNumbers"
  shows "find (\<lambda>r. number r = n)
           (sortByProfit (map (liabilityCandidate this bs t) candidateNumbers))
         = Some (liabilityCandidate this bs t n)"
proof -
  let ?rs = "sortByProfit (map (liabilityCandidate this bs t) candidateNumbers)"
  have "liabilityCandidate this bs t n \<in> set ?rs"
    using assms by (simp add: sortByProfit_def)
  from find_by_key [OF distinct_numbers_sorted this]
  show ?thesis by (simp add: number_liabilityCandidate)
qed

lemma calculate_nonempty:
  assumes "bet_findMany d roundId \<noteq> []"
  shows "calculateAllResultsLiability this d roundId
         = Some \<lparr>calc_gameRoundId = roundId,
                 calc_totalCollection = foldl (\<lambda>sum bet. sum + amount bet) 0 (bet_findMany d roundId),
                 totalBets = length (bet_findMany d roundId),
                 results = sortByProfit
                   (map (liabilityCandidate this (bet_findMany d roundId)
                          (foldl (\<lambda>sum bet. sum + amount bet) 0 (bet_findMany d roundId)))
                      candidateNumbers)\<rparr>"
  using assms by (simp add: calculateAllResultsLiability_def Let_def)

section \<open>Admin declaration against the maximum loss\<close>

text \<open>
  C6. An admin declaration whose target candidate is not acceptable (its loss exceeds
  \<open>MAX_LOSS_PER_ROUND\<close>) is rejected by the validation, and the database is left as it was:
  the round keeps its status and result status, and no bet is settled.
\<close>

theorem declare_rejects_unacceptable:
  assumes "calculateAllResultsLiability engine d roundId = Some calc"
    and "targetNumberOf winningOption = Some (Some t)"
    and "find (\<lambda>r. number r = t) (results calc) = Some cand"
    and "\<not> isAcceptable cand"
  shows "validateAdminResult engine d roundId winningOption
           = Inr (Invalid (ExceedsMaxLoss cand) (Some cand))
       \<and> (\<exists>e. declareResult engine d roundId winningOption adminId now = (Inl e, d))
       \<and> (\<forall>r. gameRound_findUnique d roundId = Some r \<longrightarrow> resultStatus r \<noteq> DECLARED
              \<longrightarrow> status r \<noteq> CANCELLED
              \<longrightarrow> declareResult engine d roundId winningOption adminId now
                    = (Inl (ExceedsMaxLoss cand), d))"
proof -
  have v: "validateAdminResult engine d roundId winningOption
             = Inr (Invalid (ExceedsMaxLoss cand) (Some cand))"
    using assms by (simp add: validateAdminResult_def)
  then show ?thesis
    by (auto simp: declareResult_def split: option.splits)
qed

theorem declare_rejects_unacceptable_witness:
  "gameRound_findUnique scenarioE ''r1'' = Some openRound
   \<and> profit (liabilityCandidate profitEngine (bets scenarioE) 3500 7) = - 5000
   \<and> MAX_LOSS_PER_ROUND profitEngine = 0
   \<and> declareResult profitEngine scenarioE ''r1'' ''7'' ''admin1'' 50
        = (Inl (ExceedsMaxLoss (liabilityCandidate profitEngine (bets scenarioE) 3500 7)), scenarioE)"
proof -
  let ?cand = "liabilityCandidate profitEngine (bets scenarioE) 3500 7"
  let ?calc = "\<lparr>calc_gameRoundId = ''r1'', calc_totalCollection = 3500, totalBets = 2,
                 results = sortByProfit
                   (map (liabilityCandidate profitEngine (bets scenarioE) 3500) candidateNumbers)\<rparr>"
  have b: "bet_findMany scenarioE ''r1'' = bets scenarioE"
    by (simp add: bet_findMany_def scenarioE_def roundWith_def mkBet_def)
  have "bet_findMany scenarioE ''r1'' \<noteq> []"
    by (simp add: bet_findMany_def scenarioE_def roundWith_def mkBet_def)
  from calculate_nonempty [OF this, of profitEngine]
  have c: "calculateAllResultsLiability profitEngine scenarioE ''r1'' = Some ?calc"
    unfolding b by (simp add: scenarioE_def roundWith_def mkBet_def)
  have t: "targetNumberOf ''7'' = Some (Some 7)"
    by (simp add: targetNumberOf_def isSingleDigit_def parseInt_def isWhiteSpace_def
        isDigitOf_def digitValue_def)
  have f: "find (\<lambda>r. number r = 7) (results ?calc) = Some ?cand"
    using find_candidate [of 7 profitEngine "bets scenarioE" 3500]
    by (simp add: candidateNumbers_def)
  have p: "profit ?cand = - 5000" by code_simp
  have a: "\<not> isAcceptable ?cand" by code_simp
  have r: "gameRound_findUnique scenarioE ''r1'' = Some openRound"
    by (simp add: gameRound_findUnique_def scenarioE_def roundWith_def openRound_def)
  have s: "resultStatus openRound \<noteq> DECLARED" "status openRound \<noteq> CANCELLED"
    by (simp_all add: openRound_def)
  from declare_rejects_unacceptable [OF c t f a, of "''admin1''" 50] r s p show ?thesis
    by (simp add: profitEngine_def)
qed

section \<open>Weighted selection\<close>

text \<open>
  The selection returns an acceptable candidate in every branch when some acceptable
  candidate is profitable, and no candidate in the first two branches when none is.
\<close>

lemma random_index_in_range:
  fixes r :: rat
  assumes "0 \<le> r" and "r < 1" and "0 < n"
  shows "nat \<lfloor>r * of_nat n\<rfloor> < n"
proof -
  have "r * of_nat n < of_nat n"
    using assms by simp
  then have "\<lfloor>r * of_nat n\<rfloor> < int n"
    by (simp add: floor_less_iff)
  moreover have "0 \<le> \<lfloor>r * of_nat n\<rfloor>"
    using assms by simp
  ultimately show ?thesis by (simp add: nat_less_iff)
qed

lemma weighted_pick_without_profitable:
  assumes "filter isAcceptable (results c) \<noteq> []"
    and "filter isProfitable (filter isAcceptable (results c)) = []"
    and "rnd2 < 9 / 10"
  shows "\<exists>rank. selectWeightedResult c rnd1 rnd2 = Ranked None rank (results c)"
  using assms
  by (simp add: selectWeightedResult_def Let_def at_index_def HIGH_PROFIT_WEIGHT_def
      MEDIUM_PROFIT_WEIGHT_def)

lemma at_index_in_range: "i < length xs \<Longrightarrow> at_index xs i = Some (xs ! i)"
  by (simp add: at_index_def)

lemma weighted_pick_with_profitable:
  assumes "filter isProfitable (filter isAcceptable (results c)) \<noteq> []"
    and "0 \<le> rnd1" and "rnd1 < 1"
  shows "\<exists>cand rank. selectWeightedResult c rnd1 rnd2 = Ranked (Some cand) rank (results c)
           \<and> cand \<in> set (results c) \<and> isAcceptable cand"
proof -
  define acc where "acc = filter isAcceptable (results c)"
  define pro where "pro = filter isProfitable acc"
  have pne: "pro \<noteq> []" unfolding pro_def acc_def by (rule assms(1))
  have ne: "acc \<noteq> []"
  proof
    assume "acc = []"
    then have "pro = []" by (simp add: pro_def)
    with pne show False by blast
  qed
  have in_acc: "x \<in> set (results c) \<and> isAcceptable x" if "x \<in> set acc" for x
    using that by (simp add: acc_def)
  have pro_acc: "x \<in> set acc" if "x \<in> set pro" for x
    using that by (simp add: pro_def)
  from pne have p0: "0 < length pro" by simp
  then have p2: "length pro div 2 < length pro" by simp
  from ne have a0: "0 < length acc" by simp
  note r = random_index_in_range [OF assms(2,3) a0]
  have sel: "selectWeightedResult c rnd1 rnd2
     = (if rnd2 < HIGH_PROFIT_WEIGHT then Ranked (Some (pro ! 0)) ''HIGH_PROFIT'' (results c)
        else if rnd2 < HIGH_PROFIT_WEIGHT + MEDIUM_PROFIT_WEIGHT
        then Ranked (Some (pro ! (length pro div 2))) ''MEDIUM_PROFIT'' (results c)
        else Ranked (Some (acc ! nat \<lfloor>rnd1 * of_nat (length acc)\<rfloor>)) ''RANDOM'' (results c))"
    using ne at_index_in_range [OF p0] at_index_in_range [OF p2] at_index_in_range [OF r]
    by (simp add: selectWeightedResult_def Let_def flip: acc_def pro_def)
  have m0: "pro ! 0 \<in> set (results c) \<and> isAcceptable (pro ! 0)"
    by (rule in_acc [OF pro_acc [OF nth_mem [OF p0]]])
  have m2: "pro ! (length pro div 2) \<in> set (results c) \<and> isAcceptable (pro ! (length pro div 2))"
    by (rule in_acc [OF pro_acc [OF nth_mem [OF p2]]])
  have mr: "acc ! nat \<lfloor>rnd1 * of_nat (length acc)\<rfloor> \<in> set (results c)
            \<and> isAcceptable (acc ! nat \<lfloor>rnd1 * of_nat (length acc)\<rfloor>)"
    by (rule in_acc [OF nth_mem [OF r]])
  from m0 m2 mr show ?thesis
    unfolding sel by (simp split: if_splits)
qed

text \<open>
  C3. The claim expects a candidate from every branch of the weighted selection as soon as
  one candidate is acceptable. With a \<open>BIG\<close> and a \<open>SMALL\<close> bet of 100 each, all ten
  candidates have profit 5 of 200: acceptable, none profitable. \<open>highProfit\<close> and
  \<open>mediumProfit\<close> are then \<open>undefined\<close>, the 70 and 20 percent branches return an object
  without a candidate, and \<open>calculateOptimalResult\<close> throws on it.
\<close>

theorem weighted_pick_undefined_without_profitable:
  "map_option
     (\<lambda>c. (length (filter isAcceptable (results c)),
           length (filter isProfitable (results c)),
           selectWeightedResult c (1 / 2) (1 / 2) = Ranked None ''HIGH_PROFIT'' (results c),
           selectWeightedResult c (1 / 2) (8 / 10) = Ranked None ''MEDIUM_PROFIT'' (results c)))
     (calculateAllResultsLiability profitEngine bigSmall ''r1'')
     = Some (10, 0, True, True)
   \<and> calculateOptimalResult profitEngine bigSmall ''r1'' 0 (1 / 2) (1 / 2) = Inl TypeError"
  by code_simp

section \<open>Settling a round twice\<close>

text \<open>
  C1. The claim expects a second settlement pass over a declared round whose bets are all
  settled to change nothing. \<open>declareResult\<close> refuses a declared round, but
  \<open>autoCalculateResult\<close> does not look at the result status and the pass does not look at
  a bet's result: on a round with a \<open>GREEN\<close> and a \<open>RED\<close> bet of 100, declared twice by the
  system with number 1, the \<open>GREEN\<close> bettor's balance goes from 900 to 1095 and then to
  1290, with a second \<open>BET_WON\<close> transaction.
\<close>

theorem auto_result_twice_pays_twice:
  "(case autoCalculateResult profitEngine greenRed ''r1'' 0 (2 / 10) (95 / 100) 7 of
      (r1, d1) \<Rightarrow>
        (case autoCalculateResult profitEngine d1 ''r1'' 0 (2 / 10) (95 / 100) 8 of
           (r2, d2) \<Rightarrow>
             (isl r1, map resultStatus (gameRounds d1), map r_number (gameRounds d1),
              map result (bet_findMany d1 ''r1''), map winAmount (bet_findMany d1 ''r1''),
              wallets d1 ''u1'', map tx_type (transactions d1),
              isl r2, map result (bet_findMany d2 ''r1''),
              wallets d2 ''u1'', map tx_type (transactions d2))))
   = (False, [DECLARED], [Some 1], [WON, LOST], [Some 195, Some 0], Some 1095, [BET_WON],
      False, [WON, LOST], Some 1290, [BET_WON, BET_WON])
   \<and> wallets greenRed ''u1'' = Some 900"
  by code_simp

section \<open>The ranking of the candidates\<close>







section \<open>Cancelling a round\<close>

lemma bet_id_setBetResult: "bet_id (setBetResult i res w b) = bet_id b"
  by (simp add: setBetResult_def)

lemma cancelIds_after_update:
  "cancelIds S (setBetResult i BET_CANCELLED 0 x) = cancelIds (insert i S) x"
  by (simp add: cancelIds_def setBetResult_def)

lemma refundLoop_effect:
  assumes "\<forall>b \<in> set bs. result b = PENDING \<longrightarrow>
             wallets d (userId b) \<noteq> None \<and> (\<exists>x \<in> set (bets d). bet_id x = bet_id b)"
  shows "\<exists>d'. refundLoop per bs d = Inr d'
           \<and> gameRounds d' = gameRounds d
           \<and> transactions d'
               = transactions d @ map (refundTransaction per) (filter (\<lambda>b. result b = PENDING) bs)
           \<and> bets d' = map (cancelIds (bet_id ` {b \<in> set bs. result b = PENDING})) (bets d)
           \<and> (\<forall>u. wallets d' u
                  = map_option
                      (\<lambda>bal. bal + sum_list (map amount (filter (\<lambda>b. userId b = u)
                                                  (filter (\<lambda>b. result b = PENDING) bs))))
                      (wallets d u))"
  using assms
proof (induction bs arbitrary: d)
  case Nil
  show ?case by (simp add: cancelIds_def option.map_ident)
next
  case (Cons b bs)
  show ?case
  proof (cases "result b = PENDING")
    case False
    have "{x \<in> set (b # bs). result x = PENDING} = {x \<in> set bs. result x = PENDING}"
      using False by auto
    with False Cons.IH [of d] Cons.prems show ?thesis by simp
  next
    case True
    with Cons.prems obtain bal where bal: "wallets d (userId b) = Some bal"
      and row: "\<exists>x \<in> set (bets d). bet_id x = bet_id b"
      by auto
    define d3 where "d3 = d\<lparr>wallets := (wallets d)(userId b \<mapsto> bal + amount b),
                             bets := map (setBetResult (bet_id b) BET_CANCELLED 0) (bets d),
                             transactions := transactions d @ [refundTransaction per b]\<rparr>"
    have step: "refundLoop per (b # bs) d = refundLoop per bs d3"
      using True bal row
      by (simp add: wallet_increment_def bet_update_def transaction_create_def d3_def)
    have pre: "\<forall>b' \<in> set bs. result b' = PENDING \<longrightarrow>
                 wallets d3 (userId b') \<noteq> None \<and> (\<exists>x \<in> set (bets d3). bet_id x = bet_id b')"
    proof (intro ballI impI)
      fix b' assume "b' \<in> set bs" "result b' = PENDING"
      with Cons.prems have w: "wallets d (userId b') \<noteq> None"
        and "\<exists>x \<in> set (bets d). bet_id x = bet_id b'" by auto
      then obtain x where "x \<in> set (bets d)" "bet_id x = bet_id b'" by auto
      then have "setBetResult (bet_id b) BET_CANCELLED 0 x \<in> set (bets d3)"
        "bet_id (setBetResult (bet_id b) BET_CANCELLED 0 x) = bet_id b'"
        by (simp_all add: d3_def bet_id_setBetResult)
      then have "\<exists>x \<in> set (bets d3). bet_id x = bet_id b'" by blast
      with w show "wallets d3 (userId b') \<noteq> None \<and> (\<exists>x \<in> set (bets d3). bet_id x = bet_id b')"
        by (simp add: d3_def)
    qed
    from Cons.IH [OF pre] obtain d' where
      r: "refundLoop per bs d3 = Inr d'"
      and g: "gameRounds d' = gameRounds d3"
      and t: "transactions d'
               = transactions d3 @ map (refundTransaction per) (filter (\<lambda>b. result b = PENDING) bs)"
      and bt: "bets d' = map (cancelIds (bet_id ` {b \<in> set bs. result b = PENDING})) (bets d3)"
      and w: "\<forall>u. wallets d' u
                  = map_option
                      (\<lambda>bal. bal + sum_list (map amount (filter (\<lambda>b. userId b = u)
                                                  (filter (\<lambda>b. result b = PENDING) bs))))
                      (wallets d3 u)"
      by blast
    have s: "{x \<in> set (b # bs). result x = PENDING}
             = insert b {x \<in> set bs. result x = PENDING}"
      using True by auto
    have bt': "bets d' = map (cancelIds (bet_id ` {x \<in> set (b # bs). result x = PENDING})) (bets d)"
      unfolding bt s by (simp add: d3_def cancelIds_after_update)
    have w': "wallets d' u
                  = map_option
                      (\<lambda>bal. bal + sum_list (map amount (filter (\<lambda>b. userId b = u)
                                                  (filter (\<lambda>b. result b = PENDING) (b # bs)))))
                      (wallets d u)" for u
      using w [rule_format, of u] True bal
      by (cases "wallets d u") (auto simp: d3_def)
    from step r g t bt' w' True show ?thesis
      by (simp add: d3_def)
  qed
qed


lemma cancelIds_round:
  assumes "distinct (map bet_id (bets d))"
  shows "map (cancelIds (bet_id ` {b \<in> set (bet_findMany d roundId). result b = PENDING})) (bets d)
         = map (cancelBet roundId) (bets d)"
proof (rule map_cong [OF refl])
  fix x assume x: "x \<in> set (bets d)"
  from assms have inj: "inj_on bet_id (set (bets d))" by (simp add: distinct_map)
  have "bet_id x \<in> bet_id ` {b \<in> set (bet_findMany d roundId). result b = PENDING}
        \<longleftrightarrow> gameRoundId x = roundId \<and> result x = PENDING"
  proof
    assume "bet_id x \<in> bet_id ` {b \<in> set (bet_findMany d roundId). result b = PENDING}"
    then obtain b where b: "b \<in> set (bets d)" "gameRoundId b = roundId" "result b = PENDING"
      "bet_id x = bet_id b"
      by (auto simp: bet_findMany_def)
    with inj x have "x = b" by (auto dest: inj_onD)
    with b show "gameRoundId x = roundId \<and> result x = PENDING" by simp
  next
    assume "gameRoundId x = roundId \<and> result x = PENDING"
    with x show "bet_id x \<in> bet_id ` {b \<in> set (bet_findMany d roundId). result b = PENDING}"
      by (auto simp: bet_findMany_def)
  qed
  then show "cancelIds (bet_id ` {b \<in> set (bet_findMany d roundId). result b = PENDING}) x
             = cancelBet roundId x"
    by (simp add: cancelIds_def cancelBet_def)
qed

lemma findUnique_in_table:
  "gameRound_findUnique d roundId = Some r \<Longrightarrow> \<exists>x \<in> set (gameRounds d). round_id x = roundId"
  by (auto simp: gameRound_findUnique_def find_Some_iff)

text \<open>
  C7. Cancelling a round whose result is still pending sets the round to \<open>CANCELLED\<close>; every
  bet of the round that is \<open>PENDING\<close> becomes \<open>CANCELLED\<close> with win amount 0, its owner's
  balance grows by exactly the stake, and a \<open>REFUND\<close> transaction is appended for it; every
  other bet is left as it is. A round that is already cancelled, or whose result is
  declared, is refused and nothing is written. (Bet ids are unique, and the owners of the
  pending bets have wallets.)
\<close>

theorem cancelRound_refunds_pending:
  assumes "gameRound_findUnique d roundId = Some r"
    and "distinct (map bet_id (bets d))"
  shows "(status r = CANCELLED \<longrightarrow>
            cancelRound d roundId adminId now = (Inl RoundAlreadyCancelled, d))
       \<and> (status r \<noteq> CANCELLED \<and> resultStatus r = DECLARED \<longrightarrow>
            cancelRound d roundId adminId now = (Inl CannotCancelDeclared, d))
       \<and> (status r \<noteq> CANCELLED \<and> resultStatus r = RESULT_PENDING
            \<and> (\<forall>b \<in> set (pendingBets d roundId). wallets d (userId b) \<noteq> None) \<longrightarrow>
            (\<exists>d'. cancelRound d roundId adminId now = (Inr (length (bet_findMany d roundId)), d')
               \<and> gameRounds d'
                   = map (\<lambda>x. if round_id x = roundId
                              then x\<lparr>status := CANCELLED, endTime := Some now\<rparr> else x)
                       (gameRounds d)
               \<and> bets d' = map (cancelBet roundId) (bets d)
               \<and> (\<forall>u. wallets d' u
                      = map_option (\<lambda>bal. bal + refundOwed d roundId u) (wallets d u))
               \<and> transactions d'
                   = transactions d @ map (refundTransaction (period r)) (pendingBets d roundId)))"
proof (intro conjI impI)
  assume "status r = CANCELLED"
  with assms(1) show "cancelRound d roundId adminId now = (Inl RoundAlreadyCancelled, d)"
    by (simp add: cancelRound_def)
next
  assume "status r \<noteq> CANCELLED \<and> resultStatus r = DECLARED"
  with assms(1) show "cancelRound d roundId adminId now = (Inl CannotCancelDeclared, d)"
    by (simp add: cancelRound_def)
next
  assume a: "status r \<noteq> CANCELLED \<and> resultStatus r = RESULT_PENDING
            \<and> (\<forall>b \<in> set (pendingBets d roundId). wallets d (userId b) \<noteq> None)"
  define d1 where "d1 = d\<lparr>gameRounds :=
      map (\<lambda>x. if round_id x = roundId then x\<lparr>status := CANCELLED, endTime := Some now\<rparr> else x)
        (gameRounds d)\<rparr>"
  have u: "gameRound_update roundId (\<lambda>r. r\<lparr>status := CANCELLED, endTime := Some now\<rparr>) d = Inr d1"
    using findUnique_in_table [OF assms(1)] by (simp add: gameRound_update_def d1_def)
  have pre: "\<forall>b \<in> set (bet_findMany d roundId). result b = PENDING \<longrightarrow>
               wallets d1 (userId b) \<noteq> None \<and> (\<exists>x \<in> set (bets d1). bet_id x = bet_id b)"
    using a by (auto simp: d1_def pendingBets_def bet_findMany_def)
  from refundLoop_effect [OF pre, of "period r"] obtain d' where
    r: "refundLoop (period r) (bet_findMany d roundId) d1 = Inr d'"
    and g: "gameRounds d' = gameRounds d1"
    and t: "transactions d' = transactions d1
              @ map (refundTransaction (period r))
                  (filter (\<lambda>b. result b = PENDING) (bet_findMany d roundId))"
    and bt: "bets d' = map (cancelIds (bet_id ` {b \<in> set (bet_findMany d roundId). result b = PENDING}))
                        (bets d1)"
    and w: "\<forall>u. wallets d' u
              = map_option
                  (\<lambda>bal. bal + sum_list (map amount (filter (\<lambda>b. userId b = u)
                      (filter (\<lambda>b. result b = PENDING) (bet_findMany d roundId)))))
                  (wallets d1 u)"
    by blast
  have c: "cancelRound d roundId adminId now = (Inr (length (bet_findMany d roundId)), d')"
    using assms(1) a u r by (simp add: cancelRound_def Let_def)
  have bt': "bets d' = map (cancelBet roundId) (bets d)"
    using bt cancelIds_round [OF assms(2), of roundId] by (simp add: d1_def)
  from c g t bt' w  
  show "\<exists>d'. cancelRound d roundId adminId now = (Inr (length (bet_findMany d roundId)), d')
               \<and> gameRounds d'
                   = map (\<lambda>x. if round_id x = roundId
                              then x\<lparr>status := CANCELLED, endTime := Some now\<rparr> else x)
                       (gameRounds d)
               \<and> bets d' = map (cancelBet roundId) (bets d)
               \<and> (\<forall>u. wallets d' u
                      = map_option (\<lambda>bal. bal + refundOwed d roundId u) (wallets d u))
               \<and> transactions d'
                   = transactions d @ map (refundTransaction (period r)) (pendingBets d roundId)"
    by (simp add: d1_def refundOwed_def pendingBets_def)
qed

theorem cancelRound_refunds_pending_witness:
  "gameRound_findUnique scenarioF ''r1'' = Some openRound
   \<and> distinct (map bet_id (bets scenarioF))
   \<and> map amount (pendingBets scenarioF ''r1'') = [50, 75, 20]
   \<and> (\<exists>d'. cancelRound scenarioF ''r1'' ''admin1'' 60 = (Inr 3, d')
         \<and> map status (gameRounds d') = [CANCELLED]
         \<and> map result (bets d') = [BET_CANCELLED, BET_CANCELLED, BET_CANCELLED]
         \<and> map winAmount (bets d') = [Some 0, Some 0, Some 0]
         \<and> map (wallets d') [''u1'', ''u2'', ''u3''] = [Some 950, Some 975, Some 920]
         \<and> map tx_type (transactions d') = [REFUND, REFUND, REFUND]
         \<and> map tx_amount (transactions d') = [50, 75, 20])
   \<and> cancelRound (scenarioF\<lparr>gameRounds := [openRound\<lparr>status := CANCELLED\<rparr>]\<rparr>) ''r1'' ''admin1'' 60
       = (Inl RoundAlreadyCancelled, scenarioF\<lparr>gameRounds := [openRound\<lparr>status := CANCELLED\<rparr>]\<rparr>)
   \<and> cancelRound (scenarioF\<lparr>gameRounds := [openRound\<lparr>resultStatus := DECLARED\<rparr>]\<rparr>) ''r1'' ''admin1'' 60
       = (Inl CannotCancelDeclared, scenarioF\<lparr>gameRounds := [openRound\<lparr>resultStatus := DECLARED\<rparr>]\<rparr>)"
proof -
  let ?c = "scenarioF\<lparr>gameRounds := [openRound\<lparr>status := CANCELLED\<rparr>]\<rparr>"
  let ?e = "scenarioF\<lparr>gameRounds := [openRound\<lparr>resultStatus := DECLARED\<rparr>]\<rparr>"
  have f: "gameRound_findUnique scenarioF ''r1'' = Some openRound"
    by (simp add: gameRound_findUnique_def scenarioF_def roundWith_def openRound_def)
  have fc: "gameRound_findUnique ?c ''r1'' = Some (openRound\<lparr>status := CANCELLED\<rparr>)"
    by (simp add: gameRound_findUnique_def openRound_def)
  have fe: "gameRound_findUnique ?e ''r1'' = Some (openRound\<lparr>resultStatus := DECLARED\<rparr>)"
    by (simp add: gameRound_findUnique_def openRound_def)
  have dd: "distinct (map bet_id (bets scenarioF))"
    by (simp add: scenarioF_def roundWith_def mkBet_def)
  have dc: "distinct (map bet_id (bets ?c))" and de: "distinct (map bet_id (bets ?e))"
    using dd by simp_all
  have p: "pendingBets scenarioF ''r1'' = bets scenarioF"
    by (simp add: pendingBets_def bet_findMany_def scenarioF_def roundWith_def mkBet_def)
  have b: "bet_findMany scenarioF ''r1'' = bets scenarioF"
    by (simp add: bet_findMany_def scenarioF_def roundWith_def mkBet_def)
  have st: "status openRound \<noteq> CANCELLED \<and> resultStatus openRound = RESULT_PENDING
            \<and> (\<forall>b \<in> set (pendingBets scenarioF ''r1''). wallets scenarioF (userId b) \<noteq> None)"
    unfolding p by (simp add: openRound_def scenarioF_def roundWith_def mkBet_def)
  from cancelRound_refunds_pending [OF f dd, of "''admin1''" 60] st
  obtain d' where c: "cancelRound scenarioF ''r1'' ''admin1'' 60
                        = (Inr (length (bet_findMany scenarioF ''r1'')), d')"
    and g: "gameRounds d' = map (\<lambda>x. if round_id x = ''r1''
                              then x\<lparr>status := CANCELLED, endTime := Some 60\<rparr> else x)
                       (gameRounds scenarioF)"
    and bt: "bets d' = map (cancelBet ''r1'') (bets scenarioF)"
    and w: "\<forall>u. wallets d' u
                      = map_option (\<lambda>bal. bal + refundOwed scenarioF ''r1'' u) (wallets scenarioF u)"
    and t: "transactions d'
                   = transactions scenarioF @ map (refundTransaction (period openRound)) (pendingBets scenarioF ''r1'')"
    by blast
  have 1: "cancelRound scenarioF ''r1'' ''admin1'' 60 = (Inr 3, d')"
    using c unfolding b by (simp add: scenarioF_def roundWith_def)
  have 2: "map status (gameRounds d') = [CANCELLED]"
    unfolding g by (simp add: scenarioF_def roundWith_def openRound_def)
  have 3: "map result (bets d') = [BET_CANCELLED, BET_CANCELLED, BET_CANCELLED]"
    "map winAmount (bets d') = [Some 0, Some 0, Some 0]"
    unfolding bt by (simp_all add: scenarioF_def roundWith_def mkBet_def cancelBet_def)
  have 4: "map (wallets d') [''u1'', ''u2'', ''u3''] = [Some 950, Some 975, Some 920]"
    using w unfolding refundOwed_def p by (simp add: scenarioF_def roundWith_def mkBet_def)
  have 5: "map tx_type (transactions d') = [REFUND, REFUND, REFUND]"
    "map tx_amount (transactions d') = [50, 75, 20]"
    unfolding t p by (simp_all add: scenarioF_def roundWith_def mkBet_def refundTransaction_def)
  have 6: "map amount (pendingBets scenarioF ''r1'') = [50, 75, 20]"
    unfolding p by (simp add: scenarioF_def roundWith_def mkBet_def)
  have 7: "cancelRound ?c ''r1'' ''admin1'' 60 = (Inl RoundAlreadyCancelled, ?c)"
    using cancelRound_refunds_pending [OF fc dc, of "''admin1''" 60] by simp
  have 8: "cancelRound ?e ''r1'' ''admin1'' 60 = (Inl CannotCancelDeclared, ?e)"
    using cancelRound_refunds_pending [OF fe de, of "''admin1''" 60] by (simp add: openRound_def)
  have ex: "\<exists>d'. cancelRound scenarioF ''r1'' ''admin1'' 60 = (Inr 3, d')
         \<and> map status (gameRounds d') = [CANCELLED]
         \<and> map result (bets d') = [BET_CANCELLED, BET_CANCELLED, BET_CANCELLED]
         \<and> map winAmount (bets d') = [Some 0, Some 0, Some 0]
         \<and> map (wallets d') [''u1'', ''u2'', ''u3''] = [Some 950, Some 975, Some 920]
         \<and> map tx_type (transactions d') = [REFUND, REFUND, REFUND]
         \<and> map tx_amount (transactions d') = [50, 75, 20]"
    by (intro exI [of _ d'] conjI; fact)
  show ?thesis
    by (intro conjI; fact)
qed

section \<open>The settlement pass over a round\<close>







section \<open>Settlement against the liability calculator\<close>



lemma parseInt_single_digit:
  assumes "isSingleDigit str"
  shows "\<exists>n. parseInt str = Some n \<and> n \<in> set candidateNumbers"
proof -
  from assms obtain c where s: "str = [c]" and c: "c \<in> set ''0123456789''"
    by (auto simp: isSingleDigit_def split: list.splits)
  from c consider "c = CHR ''0''" | "c = CHR ''1''" | "c = CHR ''2''" | "c = CHR ''3''"
    | "c = CHR ''4''" | "c = CHR ''5''" | "c = CHR ''6''" | "c = CHR ''7''"
    | "c = CHR ''8''" | "c = CHR ''9''"
    by auto
  then show ?thesis
    unfolding s
    by cases
       (simp_all add: parseInt_def isWhiteSpace_def isDigitOf_def digitValue_def
          candidateNumbers_def)
qed













end
